theory Spec2Isabelle
  imports Main "HOL-Library.AList"
begin

section \<open>Exceptions\<close>

text \<open>
  The exception classes that \<^verbatim>\<open>client.py\<close> raises, catches or lets through.  The builtin
  ones are Python's; the others are imported from \<^verbatim>\<open>.exceptions\<close>.  \<open>ReadTimeout\<close> is
  httpx's; \<open>OtherException\<close> stands for any exception class with no role in the control flow
  of this module (a transport error, say).
\<close>

datatype exn =
    AuthError | APIError | ImageGenerationError | TimeoutError | GeminiError
  | UsageLimitExceeded | ModelInvalid | TemporarilyBlocked
  | ValueError | TypeError | IndexError | KeyError | AssertionError | RuntimeError
  | UnboundLocalError | ReadTimeout | PlainException | OtherException

text \<open>
  Modelled from the spec: the module \<^verbatim>\<open>exceptions.py\<close>, which declares the class
  hierarchy, is not part of the sources at hand.  Section 7 of the specification lists the
  kinds as separate; \<^verbatim>\<open>client.py\<close> itself fixes two subclass relations, and no other is
  assumed: \<open>ImageGenerationError\<close> is an \<open>APIError\<close> (line 69 tests for it inside the
  \<open>APIError\<close> handler), and the three classified rejections and the timeout are
  \<open>GeminiError\<close>s (line 543 re-raises them as such).
\<close>

definition isinstance_APIError :: "exn \<Rightarrow> bool" where
  "isinstance_APIError e = (e = APIError \<or> e = ImageGenerationError)"

definition isinstance_GeminiError :: "exn \<Rightarrow> bool" where
  "isinstance_GeminiError e =
     (e = GeminiError \<or> e = TimeoutError \<or> e = UsageLimitExceeded \<or> e = ModelInvalid
      \<or> e = TemporarilyBlocked)"

text \<open>The handlers \<^verbatim>\<open>except (IndexError, TypeError, ValueError)\<close> and
  \<^verbatim>\<open>except (TypeError, IndexError)\<close>.  \<open>KeyError\<close> is a \<open>LookupError\<close> but not an
  \<open>IndexError\<close>, so neither handler catches it.\<close>

definition caught_ITV :: "exn \<Rightarrow> bool" where
  "caught_ITV e = (e = IndexError \<or> e = TypeError \<or> e = ValueError)"

definition caught_TI :: "exn \<Rightarrow> bool" where
  "caught_TI e = (e = TypeError \<or> e = IndexError)"

text \<open>Sequencing of fallible steps: the first exception ends the computation.\<close>

definition bindE :: "exn + 'a \<Rightarrow> ('a \<Rightarrow> exn + 'b) \<Rightarrow> exn + 'b" where
  "bindE m f = (case m of Inl e \<Rightarrow> Inl e | Inr v \<Rightarrow> f v)"

fun mapE :: "('a \<Rightarrow> exn + 'b) \<Rightarrow> 'a list \<Rightarrow> exn + 'b list" where
  "mapE f [] = Inr []"
| "mapE f (x # xs) =
     (case f x of Inl e \<Rightarrow> Inl e
      | Inr y \<Rightarrow> (case mapE f xs of Inl e \<Rightarrow> Inl e | Inr ys \<Rightarrow> Inr (y # ys)))"

section \<open>JSON values and Python's dynamic operations on them\<close>

text \<open>
  What \<^verbatim>\<open>json.loads\<close> returns: \<open>None\<close>, a bool, an int, a str, a list or a dict with
  string keys.  Floats are left out: no position that the client reads holds one.
  A \<open>string\<close> is a list of 8-bit characters, where Python's str is a sequence of code points.
\<close>

datatype json =
    JNull | JBool bool | JNum int | JStr string | JArr "json list" | JObj "(string \<times> json) list"

text \<open>Truth value testing: \<open>None\<close>, \<open>False\<close>, zero and every empty container are false.\<close>

fun py_truthy :: "json \<Rightarrow> bool" where
  "py_truthy JNull = False"
| "py_truthy (JBool b) = b"
| "py_truthy (JNum n) = (n \<noteq> 0)"
| "py_truthy (JStr s) = (s \<noteq> [])"
| "py_truthy (JArr xs) = (xs \<noteq> [])"
| "py_truthy (JObj kvs) = (kvs \<noteq> [])"

text \<open>Indexing a sequence by an int: negative indices count from the end, an index out of
  range raises \<open>IndexError\<close>.\<close>

definition py_index :: "'a list \<Rightarrow> int \<Rightarrow> exn + 'a" where
  "py_index xs i =
     (if 0 \<le> i \<and> i < int (length xs) then Inr (xs ! nat i)
      else if i < 0 \<and> - int (length xs) \<le> i then Inr (xs ! nat (int (length xs) + i))
      else Inl IndexError)"

text \<open>\<^verbatim>\<open>x[i]\<close> for an int \<open>i\<close>: a list gives its element, a str a one-character str, a dict
  (whose keys are strings) raises \<open>KeyError\<close>, anything else is not subscriptable.\<close>

fun py_getitem :: "json \<Rightarrow> int \<Rightarrow> exn + json" where
  "py_getitem (JArr xs) i = py_index xs i"
| "py_getitem (JStr s) i = (case py_index s i of Inl e \<Rightarrow> Inl e | Inr c \<Rightarrow> Inr (JStr [c]))"
| "py_getitem (JObj kvs) i = Inl KeyError"
| "py_getitem JNull i = Inl TypeError"
| "py_getitem (JBool b) i = Inl TypeError"
| "py_getitem (JNum n) i = Inl TypeError"

text \<open>A chain of subscripts \<^verbatim>\<open>x[i][j]...\<close>, evaluated left to right.\<close>

fun py_path :: "json \<Rightarrow> int list \<Rightarrow> exn + json" where
  "py_path x [] = Inr x"
| "py_path x (i # is) = (case py_getitem x i of Inl e \<Rightarrow> Inl e | Inr y \<Rightarrow> py_path y is)"

text \<open>Iteration (\<^verbatim>\<open>for\<close>, \<^verbatim>\<open>enumerate\<close>, slice assignment): a list yields its elements,
  a str its characters, a dict its keys.\<close>

fun py_iter :: "json \<Rightarrow> exn + json list" where
  "py_iter (JArr xs) = Inr xs"
| "py_iter (JStr s) = Inr (map (\<lambda>c. JStr [c]) s)"
| "py_iter (JObj kvs) = Inr (map (\<lambda>kv. JStr (fst kv)) kvs)"
| "py_iter JNull = Inl TypeError"
| "py_iter (JBool b) = Inl TypeError"
| "py_iter (JNum n) = Inl TypeError"

fun py_len :: "json \<Rightarrow> exn + nat" where
  "py_len (JArr xs) = Inr (length xs)"
| "py_len (JStr s) = Inr (length s)"
| "py_len (JObj kvs) = Inr (length kvs)"
| "py_len JNull = Inl TypeError"
| "py_len (JBool b) = Inl TypeError"
| "py_len (JNum n) = Inl TypeError"

text \<open>\<^verbatim>\<open>a and b\<close> and \<^verbatim>\<open>a or b\<close> on values (the second operand is passed evaluated; where
  its evaluation can raise, the caller tests \<open>py_truthy\<close> first).\<close>

definition py_or :: "json \<Rightarrow> json \<Rightarrow> json" where
  "py_or a b = (if py_truthy a then a else b)"


section \<open>Outputs of a generation call\<close>

text \<open>
  Modelled from the spec: \<^verbatim>\<open>types.py\<close> (\<open>WebImage\<close>, \<open>GeneratedImage\<close>, \<open>Candidate\<close>,
  \<open>ModelOutput\<close>, \<open>Gem\<close>, \<open>GemJar\<close>) is not part of the sources at hand.  The records have
  the fields of section 3 of the specification, named as the constructor calls in
  \<^verbatim>\<open>client.py\<close> name them, and hold the values that the parser read, unvalidated.
  The title of a generated image is the text \<^verbatim>\<open>[Generated Image x]\<close>; the record keeps \<open>x\<close>.
\<close>

record web_image =
  wi_url :: json
  wi_title :: json
  wi_alt :: json

record generated_image =
  gi_url :: json
  gi_title_arg :: json
  gi_alt :: json

record candidate =
  cand_rcid :: json
  cand_text :: json
  cand_thoughts :: json
  cand_web_images :: "web_image list"
  cand_generated_images :: "generated_image list"

record model_output =
  mo_metadata :: json
  mo_candidates :: "candidate list"
  mo_chosen :: int

text \<open>\<^verbatim>\<open>ModelOutput(metadata=..., candidates=...)\<close>: the chosen index defaults to 0.\<close>

definition ModelOutput :: "json \<Rightarrow> candidate list \<Rightarrow> model_output" where
  "ModelOutput md cs = \<lparr>mo_metadata = md, mo_candidates = cs, mo_chosen = 0\<rparr>"

text \<open>
  Modelled from the spec: the property \<^verbatim>\<open>ModelOutput.rcid\<close> of the absent \<^verbatim>\<open>types.py\<close>.
  Sections 3 and 4.5: the reply-candidate id of an output is that of its chosen candidate,
  the candidate at \<open>chosenIndex\<close>, read by Python's list indexing.
\<close>

definition ModelOutput_rcid :: "model_output \<Rightarrow> exn + json" where
  "ModelOutput_rcid out =
     (case py_index (mo_candidates out) (mo_chosen out) of
        Inl e \<Rightarrow> Inl e | Inr c \<Rightarrow> Inr (cand_rcid c))"

section \<open>ChatSession\<close>

text \<open>
  The slots of \<^verbatim>\<open>ChatSession\<close>.  The reference to the client is left out: the session does
  not own the client, and \<^verbatim>\<open>send_message\<close> is \<^verbatim>\<open>generate_content\<close> with \<open>chat=self\<close>.
  The enum \<^verbatim>\<open>constants.Model\<close> is not at hand: its members are the type parameter \<open>'m\<close>.
\<close>

text \<open>The argument \<^verbatim>\<open>model: Model | str\<close>: a member of the enum or a model name.\<close>

datatype 'm model_ref = ModelEnum 'm | ModelName string

record gem =
  g_id :: json
  g_name :: json
  g_description :: json
  g_prompt :: json
  g_predefined :: bool

text \<open>The argument \<^verbatim>\<open>gem: Gem | str | None\<close>: a \<open>Gem\<close> object or a gem id.\<close>

datatype gem_ref = GemObject gem | GemId string

record 'm chat_session =
  cs_metadata :: "json list"
  cs_last_output :: "model_output option"
  cs_model :: "'m model_ref"
  cs_gem :: "gem_ref option"

text \<open>The \<open>metadata\<close> setter (lines 822-826): \<^verbatim>\<open>self.__metadata[:len(value)] = value\<close>
  replaces the first \<open>len(value)\<close> slots by the elements of \<open>value\<close>.\<close>

definition set_metadata :: "json \<Rightarrow> 'm chat_session \<Rightarrow> exn + 'm chat_session" where
  "set_metadata v s =
     (case py_len v of
        Inl e \<Rightarrow> Inl e
      | Inr n \<Rightarrow>
          if n > 3 then Inl ValueError
          else (case py_iter v of
                  Inl e \<Rightarrow> Inl e
                | Inr xs \<Rightarrow> Inr (s\<lparr>cs_metadata := xs @ drop n (cs_metadata s)\<rparr>)))"

text \<open>\<^verbatim>\<open>self.__metadata[k] = value\<close>: item assignment raises \<open>IndexError\<close> out of range.\<close>

definition set_slot :: "nat \<Rightarrow> json \<Rightarrow> 'm chat_session \<Rightarrow> exn + 'm chat_session" where
  "set_slot k v s =
     (if k < length (cs_metadata s) then Inr (s\<lparr>cs_metadata := (cs_metadata s)[k := v]\<rparr>)
      else Inl IndexError)"

definition set_cid :: "json \<Rightarrow> 'm chat_session \<Rightarrow> exn + 'm chat_session" where
  "set_cid = set_slot 0"

definition set_rid :: "json \<Rightarrow> 'm chat_session \<Rightarrow> exn + 'm chat_session" where
  "set_rid = set_slot 1"

definition set_rcid :: "json \<Rightarrow> 'm chat_session \<Rightarrow> exn + 'm chat_session" where
  "set_rcid = set_slot 2"

definition get_metadata :: "'m chat_session \<Rightarrow> json list" where
  "get_metadata s = cs_metadata s"

definition get_cid :: "'m chat_session \<Rightarrow> exn + json" where
  "get_cid s = py_index (cs_metadata s) 0"

definition get_rid :: "'m chat_session \<Rightarrow> exn + json" where
  "get_rid s = py_index (cs_metadata s) 1"

definition get_rcid :: "'m chat_session \<Rightarrow> exn + json" where
  "get_rcid s = py_index (cs_metadata s) 2"

text \<open>
  \<^verbatim>\<open>__setattr__\<close> for the name \<open>last_output\<close> and a \<open>ModelOutput\<close> value (lines 731-736):
  the slot is written first, then the lineage is updated from the output.  An exception of
  the second or third step leaves the earlier writes in place, so the session is returned
  with it.
\<close>

definition set_last_output ::
  "model_output \<Rightarrow> 'm chat_session \<Rightarrow> exn option \<times> 'm chat_session" where
  "set_last_output out s =
     (let s1 = s\<lparr>cs_last_output := Some out\<rparr> in
      case set_metadata (mo_metadata out) s1 of
        Inl e \<Rightarrow> (Some e, s1)
      | Inr s2 \<Rightarrow>
          (case ModelOutput_rcid out of
             Inl e \<Rightarrow> (Some e, s2)
           | Inr r \<Rightarrow>
               (case set_rcid r s2 of
                  Inl e \<Rightarrow> (Some e, s2)
                | Inr s3 \<Rightarrow> (None, s3))))"

text \<open>\<^verbatim>\<open>ChatSession.__init__\<close> (lines 701-724).  The arguments \<open>metadata\<close>, \<open>cid\<close>, \<open>rid\<close>,
  \<open>rcid\<close> are applied only when truthy.\<close>

definition apply_if_truthy ::
  "(json \<Rightarrow> 'm chat_session \<Rightarrow> exn + 'm chat_session) \<Rightarrow> json \<Rightarrow> 'm chat_session
     \<Rightarrow> exn + 'm chat_session" where
  "apply_if_truthy setter v s = (if py_truthy v then setter v s else Inr s)"

definition ChatSession_init ::
  "json \<Rightarrow> json \<Rightarrow> json \<Rightarrow> json \<Rightarrow> 'm model_ref \<Rightarrow> gem_ref option
     \<Rightarrow> exn + 'm chat_session" where
  "ChatSession_init metadata cid rid rcid model gem =
     (let s0 = \<lparr>cs_metadata = [JNull, JNull, JNull], cs_last_output = None,
                cs_model = model, cs_gem = gem\<rparr>
      in bindE (apply_if_truthy set_metadata metadata s0) (\<lambda>s1.
         bindE (apply_if_truthy set_cid cid s1) (\<lambda>s2.
         bindE (apply_if_truthy set_rid rid s2) (\<lambda>s3.
         apply_if_truthy set_rcid rcid s3))))"

text \<open>\<^verbatim>\<open>GeminiClient.start_chat()\<close> with no further arguments: every argument of
  \<^verbatim>\<open>ChatSession.__init__\<close> at its default (\<open>None\<close>, and \<^verbatim>\<open>Model.UNSPECIFIED\<close>, a
  parameter here).\<close>

definition start_chat :: "'m \<Rightarrow> exn + 'm chat_session" where
  "start_chat unspecified =
     ChatSession_init JNull JNull JNull JNull (ModelEnum unspecified) None"

text \<open>
  \<^verbatim>\<open>choose_candidate\<close> (lines 786-816).  A \<open>ModelOutput\<close> object is always truthy, so
  \<^verbatim>\<open>not self.last_output\<close> holds exactly when the slot is \<open>None\<close>.  The output is one object,
  held by the session and returned: the pair returned here is that object and the session
  holding it.  When reading \<open>rcid\<close> raises, \<open>chosen\<close> has been written already.
\<close>

definition choose_candidate ::
  "int \<Rightarrow> 'm chat_session \<Rightarrow> (exn + model_output) \<times> 'm chat_session" where
  "choose_candidate index s =
     (case cs_last_output s of
        None \<Rightarrow> (Inl ValueError, s)
      | Some out \<Rightarrow>
          if index \<ge> int (length (mo_candidates out)) then (Inl ValueError, s)
          else
            (let out' = out\<lparr>mo_chosen := index\<rparr>;
                 s1 = s\<lparr>cs_last_output := Some out'\<rparr>
             in case ModelOutput_rcid out' of
                  Inl e \<Rightarrow> (Inl e, s1)
                | Inr r \<Rightarrow>
                    (case set_rcid r s1 of
                       Inl e \<Rightarrow> (Inl e, s1)
                     | Inr s2 \<Rightarrow> (Inr out', s2))))"

section \<open>The request encoder\<close>

text \<open>
  The value that \<^verbatim>\<open>generate_content\<close> passes to the inner \<^verbatim>\<open>json.dumps\<close> (lines 470-488).
  Each attachment is the pair of the upload reference returned by \<^verbatim>\<open>upload_file\<close> and the
  name returned by \<^verbatim>\<open>parse_file_name\<close>.
\<close>

definition content_envelope :: "string \<Rightarrow> (string \<times> string) list \<Rightarrow> json" where
  "content_envelope prompt atts =
     (if atts \<noteq> []
      then JArr [JStr prompt, JNum 0, JNull,
                 JArr (map (\<lambda>a. JArr [JArr [JStr (fst a)], JStr (snd a)]) atts)]
      else JArr [JStr prompt])"

text \<open>\<^verbatim>\<open>chat and chat.metadata\<close>: a \<open>ChatSession\<close> object is always truthy, so the slot is
  \<open>None\<close> without a session and the session's lineage list with one.\<close>

definition lineage_slot :: "'m chat_session option \<Rightarrow> json" where
  "lineage_slot chat = (case chat of None \<Rightarrow> JNull | Some s \<Rightarrow> JArr (get_metadata s))"

text \<open>Lines 454-455: a \<open>Gem\<close> object is replaced by its id.\<close>

definition gem_value :: "gem_ref option \<Rightarrow> json" where
  "gem_value gem =
     (case gem of None \<Rightarrow> JNull | Some (GemId i) \<Rightarrow> JStr i | Some (GemObject g) \<Rightarrow> g_id g)"

text \<open>\<^verbatim>\<open>gem and [None] * 16 + [gem] or []\<close>\<close>

definition gem_suffix :: "json \<Rightarrow> json list" where
  "gem_suffix g = (if py_truthy g then replicate 16 JNull @ [g] else [])"

definition turn_envelope ::
  "string \<Rightarrow> (string \<times> string) list \<Rightarrow> 'm chat_session option \<Rightarrow> gem_ref option \<Rightarrow> json list" where
  "turn_envelope prompt atts chat gem =
     [content_envelope prompt atts, JNull, lineage_slot chat] @ gem_suffix (gem_value gem)"

section \<open>The client\<close>

datatype endpoint = GENERATE | BATCH_EXEC

record 'm request =
  rq_endpoint :: endpoint
  rq_model :: "'m option"
  rq_at :: "string option"
  rq_f_req :: string

record response =
  status_code :: int
  response_text :: string

datatype error_code = USAGE_LIMIT_EXCEEDED | MODEL_HEADER_INVALID | IP_TEMPORARILY_BLOCKED

text \<open>
  What the client calls and does not define: the transport (\<^verbatim>\<open>AsyncClient.post\<close>),
  \<^verbatim>\<open>orjson\<close>, the helpers of \<^verbatim>\<open>utils\<close> and the tables of \<^verbatim>\<open>constants\<close>.  They are
  parameters.  The type \<open>'w\<close> is the state of everything outside the client (the service, the
  network, the file system): a call that depends on it takes it and returns it.
  \<open>d_error_code\<close> is the table of \<^verbatim>\<open>constants.ErrorCode\<close>, from numeric value to member.
\<close>

record ('w, 'm) deps =
  d_get_access_token ::
    "(string \<times> string) list \<Rightarrow> 'w \<Rightarrow> (exn + string \<times> (string \<times> string) list) \<times> 'w"
  d_post :: "'m request \<Rightarrow> 'w \<Rightarrow> (exn + response) \<times> 'w"
  d_upload_file :: "string \<Rightarrow> 'w \<Rightarrow> (exn + string) \<times> 'w"
  d_parse_file_name :: "string \<Rightarrow> exn + string"
  d_dumps :: "json \<Rightarrow> string"
  d_loads :: "string \<Rightarrow> json option"
  d_error_code :: "int \<Rightarrow> error_code option"
  d_from_name :: "string \<Rightarrow> exn + 'm"

text \<open>
  The slots of \<^verbatim>\<open>GeminiClient\<close> that the control flow reads.  The durations (\<open>timeout\<close>,
  \<open>close_delay\<close>, \<open>refresh_interval\<close>) and \<open>proxy\<close>, \<open>kwargs\<close> are only handed on and are
  left out.  A background task is a flag here: \<open>close_task\<close> says that an idle-close task is
  scheduled, \<open>rotate_tasks\<close> holds the credential identities with a scheduled refresh task
  (the registry \<^verbatim>\<open>utils.rotate_tasks\<close>).  What the tasks do when they run is not modelled.
\<close>

type_synonym gem_jar = "(json \<times> gem) list"

record 'w client =
  cookies :: "(string \<times> string) list"
  running :: bool
  access_token :: "string option"
  auto_close :: bool
  close_task :: bool
  auto_refresh :: bool
  rotate_tasks :: "string set"
  gems :: "gem_jar option"
  world :: 'w

text \<open>\<^verbatim>\<open>close()\<close> with no delay (lines 228-248), and \<^verbatim>\<open>reset_close_task\<close> (lines 250-258).\<close>

definition close :: "'w client \<Rightarrow> 'w client" where
  "close c = c\<lparr>running := False, close_task := False\<rparr>"

definition reset_close_task :: "'w client \<Rightarrow> 'w client" where
  "reset_close_task c = c\<lparr>close_task := True\<rparr>"

text \<open>
  \<^verbatim>\<open>init\<close> (lines 160-226).  Every exception inside closes the client and is raised again;
  \<^verbatim>\<open>self.cookies["__Secure-1PSID"]\<close> raises \<open>KeyError\<close> when the cookie is missing.
\<close>

definition init :: "('w, 'm) deps \<Rightarrow> bool \<Rightarrow> bool \<Rightarrow> 'w client \<Rightarrow> (exn + unit) \<times> 'w client" where
  "init d auto_close_arg auto_refresh_arg c =
     (case d_get_access_token d (cookies c) (world c) of
        (Inl e, w) \<Rightarrow> (Inl e, close (c\<lparr>world := w\<rparr>))
      | (Inr (token, valid_cookies), w) \<Rightarrow>
          (let c1 = c\<lparr>world := w, access_token := Some token, cookies := valid_cookies,
                      running := True, auto_close := auto_close_arg\<rparr>;
               c2 = (if auto_close c1 then reset_close_task c1 else c1);
               c3 = c2\<lparr>auto_refresh := auto_refresh_arg\<rparr>
           in case map_of (cookies c3) ''__Secure-1PSID'' of
                None \<Rightarrow> (Inl KeyError, close c3)
              | Some k \<Rightarrow>
                  (Inr (),
                   c3\<lparr>rotate_tasks :=
                        (if auto_refresh c3 then insert k (rotate_tasks c3)
                         else rotate_tasks c3 - {k})\<rparr>)))"

section \<open>The decorator \<open>running\<close>\<close>

text \<open>
  What a wrapped call does is recorded as a trace: an initialization, an invocation of the
  wrapped function, a \<^verbatim>\<open>asyncio.sleep(1)\<close> before a retry.
\<close>

datatype event = EvInit | EvCall | EvSleep

text \<open>
  The body of the \<^verbatim>\<open>try\<close> (lines 49-66).  The wrapped function takes the objects passed to
  it (\<open>'x\<close>: the chat session of \<^verbatim>\<open>generate_content\<close>, which it mutates) and the client.
\<close>

definition attempt ::
  "('w, 'm) deps \<Rightarrow> ('x \<Rightarrow> 'w client \<Rightarrow> (exn + 'a) \<times> 'x \<times> 'w client) \<Rightarrow> 'x \<Rightarrow> 'w client
     \<Rightarrow> (exn + 'a) \<times> 'x \<times> 'w client \<times> event list" where
  "attempt d func x c =
     (if \<not> running c then
        (case init d (auto_close c) (auto_refresh c) c of
           (Inl e, c1) \<Rightarrow> (Inl e, x, c1, [EvInit])
         | (Inr u, c1) \<Rightarrow>
             if running c1
             then (case func x c1 of (r, x', c2) \<Rightarrow> (r, x', c2, [EvInit, EvCall]))
             else (Inl APIError, x, c1, [EvInit]))
      else (case func x c of (r, x', c1) \<Rightarrow> (r, x', c1, [EvCall])))"

text \<open>The handler (lines 67-76): the budget left after an exception, \<open>None\<close> when the
  exception is raised again.\<close>

definition retry_budget :: "exn \<Rightarrow> int \<Rightarrow> int option" where
  "retry_budget e retry =
     (if isinstance_APIError e then
        (let retry' = (if e = ImageGenerationError then min 1 retry else retry)
         in if retry' > 0 then Some (retry' - 1) else None)
      else None)"

function wrapper ::
  "('w, 'm) deps \<Rightarrow> ('x \<Rightarrow> 'w client \<Rightarrow> (exn + 'a) \<times> 'x \<times> 'w client) \<Rightarrow> int \<Rightarrow> 'x \<Rightarrow> 'w client
     \<Rightarrow> (exn + 'a) \<times> 'x \<times> 'w client \<times> event list" where
  "wrapper d func retry x c =
     (case attempt d func x c of
        (Inr v, x', c', tr) \<Rightarrow> (Inr v, x', c', tr)
      | (Inl e, x', c', tr) \<Rightarrow>
          (case retry_budget e retry of
             None \<Rightarrow> (Inl e, x', c', tr)
           | Some retry' \<Rightarrow>
               (case wrapper d func retry' x' c' of
                  (r, x'', c'', tr') \<Rightarrow> (r, x'', c'', tr @ EvSleep # tr'))))"
  by pat_completeness auto
termination
  by (relation "measure (\<lambda>(d, func, retry, x, c). nat retry)")
     (auto simp: retry_budget_def Let_def split: if_splits)

declare wrapper.simps [simp del]

text \<open>The trace of a wrapped call, and the number of invocations of the wrapped function
  in a trace.\<close>

definition trace_of :: "'r \<times> 'x \<times> 'c \<times> event list \<Rightarrow> event list" where
  "trace_of res = snd (snd (snd res))"

definition invocations :: "event list \<Rightarrow> nat" where
  "invocations tr = count_list tr EvCall"

section \<open>The response parser\<close>

subsection \<open>Text helpers\<close>

text \<open>\<^verbatim>\<open>str.split("\n")\<close>: the pieces between the newlines, one more than there are
  newlines.\<close>

fun split_nl :: "string \<Rightarrow> string list" where
  "split_nl [] = [[]]"
| "split_nl (c # cs) =
     (if c = CHR 0x0A then [] # split_nl cs
      else (case split_nl cs of [] \<Rightarrow> [[c]] | l # ls \<Rightarrow> (c # l) # ls))"

definition is_digit :: "char \<Rightarrow> bool" where
  "is_digit c = (c \<in> set ''0123456789'')"

text \<open>The characters that \<^verbatim>\<open>str.rstrip()\<close> strips, among the code points below 256:
  tab to carriage return, the four separators, the space, U+0085 and U+00A0.\<close>

definition is_space :: "char \<Rightarrow> bool" where
  "is_space c =
     (c \<in> {CHR 0x09, CHR 0x0A, CHR 0x0B, CHR 0x0C, CHR 0x0D, CHR 0x1C, CHR 0x1D, CHR 0x1E,
            CHR 0x1F, CHR 0x20, CHR 0x85, CHR 0xA0})"

definition card_content_prefix :: string where
  "card_content_prefix = ''http://googleusercontent.com/card_content/''"

definition image_content_prefix :: string where
  "image_content_prefix = ''http://googleusercontent.com/image_generation_content/''"

text \<open>The patterns of lines 556 and 604 are a literal followed by \<^verbatim>\<open>\d+\<close>: the string
  starts with the literal and at least one digit.\<close>

definition starts_with_marker :: "string \<Rightarrow> string \<Rightarrow> bool" where
  "starts_with_marker p s =
     (take (length p) s = p \<and> (case drop (length p) s of [] \<Rightarrow> False | c # cs \<Rightarrow> is_digit c))"

text \<open>\<^verbatim>\<open>re.sub(pattern, "", s)\<close>: every match, leftmost first and with all its digits, is
  removed.\<close>

function re_sub_marker :: "string \<Rightarrow> string \<Rightarrow> string" where
  "re_sub_marker p [] = []"
| "re_sub_marker p (c # cs) =
     (if starts_with_marker p (c # cs)
      then re_sub_marker p (dropWhile is_digit (drop (length p) (c # cs)))
      else c # re_sub_marker p cs)"
  by pat_completeness auto
termination
proof (relation "measure (\<lambda>(p, s). length s)")
  fix p :: string and c :: char and cs :: string
  assume m: "starts_with_marker p (c # cs)"
  then obtain d ds where d: "drop (length p) (c # cs) = d # ds" "is_digit d"
    by (auto simp: starts_with_marker_def split: list.splits)
  have "length (dropWhile is_digit (d # ds)) \<le> length ds"
    using d(2) by (simp add: length_dropWhile_le)
  moreover have "length (d # ds) \<le> length (c # cs)"
    using d(1) by (metis length_drop diff_le_self)
  ultimately show "((p, dropWhile is_digit (drop (length p) (c # cs))), (p, c # cs))
                    \<in> measure (\<lambda>(p, s). length s)"
    using d(1) by simp
qed simp_all

definition py_rstrip :: "string \<Rightarrow> string" where
  "py_rstrip s = rev (dropWhile is_space (rev s))"

subsection \<open>Locating the body\<close>

text \<open>\<^verbatim>\<open>json.loads\<close> of orjson raises \<open>JSONDecodeError\<close>, a \<open>ValueError\<close>, on invalid JSON and
  on an argument that is not a str.\<close>

definition json_loads :: "('w, 'm) deps \<Rightarrow> json \<Rightarrow> exn + json" where
  "json_loads d v =
     (case v of
        JStr s \<Rightarrow> (case d_loads d s of None \<Rightarrow> Inl ValueError | Some j \<Rightarrow> Inr j)
      | _ \<Rightarrow> Inl ValueError)"

text \<open>\<^verbatim>\<open>json.loads(response.text.split("\n")[2])\<close>\<close>

definition load_response_json :: "('w, 'm) deps \<Rightarrow> string \<Rightarrow> exn + json" where
  "load_response_json d txt =
     bindE (py_index (split_nl txt) 2) (\<lambda>line. json_loads d (JStr line))"

text \<open>\<^verbatim>\<open>json.loads(part[2])\<close>\<close>

definition load_part :: "('w, 'm) deps \<Rightarrow> json \<Rightarrow> exn + json" where
  "load_part d part = bindE (py_getitem part 2) (json_loads d)"

text \<open>The loop of lines 512-519, from part index \<open>i\<close> on.\<close>

fun find_body :: "('w, 'm) deps \<Rightarrow> nat \<Rightarrow> json list \<Rightarrow> exn + (nat \<times> json) option" where
  "find_body d i [] = Inr None"
| "find_body d i (part # rest) =
     (case load_part d part of
        Inl e \<Rightarrow> if caught_ITV e then find_body d (Suc i) rest else Inl e
      | Inr main_part \<Rightarrow>
          (case py_getitem main_part 4 of
             Inl e \<Rightarrow> if caught_ITV e then find_body d (Suc i) rest else Inl e
           | Inr m4 \<Rightarrow>
               if py_truthy m4 then Inr (Some (i, main_part))
               else find_body d (Suc i) rest))"

text \<open>Lines 510-522: the parts of the outer array, the index of the body and the body;
  \<^verbatim>\<open>raise Exception\<close> when there is none.\<close>

definition locate_body :: "('w, 'm) deps \<Rightarrow> json \<Rightarrow> exn + json list \<times> nat \<times> json" where
  "locate_body d response_json =
     bindE (py_iter response_json) (\<lambda>parts.
       case find_body d 0 parts of
         Inl e \<Rightarrow> Inl e
       | Inr None \<Rightarrow> Inl PlainException
       | Inr (Some (body_index, body)) \<Rightarrow>
           if py_truthy body then Inr (parts, body_index, body) else Inl PlainException)"

subsection \<open>Classifying a structural failure\<close>

text \<open>\<^verbatim>\<open>ErrorCode(v)\<close>: the member whose value equals \<open>v\<close>, \<open>ValueError\<close> when there is
  none.  In Python \<open>True == 1\<close> and \<open>False == 0\<close>.\<close>

definition ErrorCode :: "('w, 'm) deps \<Rightarrow> json \<Rightarrow> exn + error_code" where
  "ErrorCode d v =
     (case (case v of JNum n \<Rightarrow> d_error_code d n
                    | JBool b \<Rightarrow> d_error_code d (if b then 1 else 0)
                    | _ \<Rightarrow> None) of
        None \<Rightarrow> Inl ValueError
      | Some code \<Rightarrow> Inr code)"

definition error_code_position :: "int list" where
  "error_code_position = [0, 5, 2, 0, 1, 0]"

text \<open>
  Lines 526-549: the exception that the handler raises.  \<open>response_json\<close> is unbound (\<open>None\<close>
  here) when line 508 raised.  Every exception but a \<open>GeminiError\<close> becomes an \<open>APIError\<close>.
\<close>

definition classify_failure :: "('w, 'm) deps \<Rightarrow> json option \<Rightarrow> exn" where
  "classify_failure d response_json =
     (case (case response_json of
              None \<Rightarrow> Inl UnboundLocalError
            | Some rj \<Rightarrow> bindE (py_path rj error_code_position) (ErrorCode d)) of
        Inl e \<Rightarrow> APIError
      | Inr code \<Rightarrow>
          (let e = (case code of
                      USAGE_LIMIT_EXCEEDED \<Rightarrow> UsageLimitExceeded
                    | MODEL_HEADER_INVALID \<Rightarrow> ModelInvalid
                    | IP_TEMPORARILY_BLOCKED \<Rightarrow> TemporarilyBlocked)
           in if isinstance_GeminiError e then e else APIError))"

text \<open>Lines 507-549 as a whole: the body, or the exception raised after the client was
  closed.\<close>

definition read_body :: "('w, 'm) deps \<Rightarrow> string \<Rightarrow> exn + json list \<times> nat \<times> json" where
  "read_body d txt =
     (case load_response_json d txt of
        Inl e \<Rightarrow> Inl (classify_failure d None)
      | Inr rj \<Rightarrow>
          (case locate_body d rj of
             Inl e \<Rightarrow> Inl (classify_failure d (Some rj))
           | Inr found \<Rightarrow> Inr found))"

subsection \<open>Candidates\<close>

text \<open>Lines 554-558.  \<^verbatim>\<open>re.match\<close> raises \<open>TypeError\<close> on a value that is not a str.\<close>

definition candidate_text :: "json \<Rightarrow> exn + json" where
  "candidate_text candidate =
     bindE (py_path candidate [1, 0]) (\<lambda>t.
       case t of
         JStr s \<Rightarrow>
           if starts_with_marker card_content_prefix s then
             bindE (py_getitem candidate 22) (\<lambda>c22.
               if py_truthy c22 then bindE (py_getitem c22 0) (\<lambda>alt. Inr (py_or alt t))
               else Inr t)
           else Inr t
       | _ \<Rightarrow> Inl TypeError)"

text \<open>Lines 560-563.\<close>

definition candidate_thoughts :: "json \<Rightarrow> exn + json" where
  "candidate_thoughts candidate =
     (case py_path candidate [37, 0, 0] of
        Inl e \<Rightarrow> if caught_TI e then Inr JNull else Inl e
      | Inr v \<Rightarrow> Inr v)"

text \<open>Lines 565-578.\<close>

definition web_image_of :: "json \<Rightarrow> exn + web_image" where
  "web_image_of w =
     bindE (py_path w [0, 0, 0]) (\<lambda>url.
     bindE (py_path w [7, 0]) (\<lambda>title.
     bindE (py_path w [0, 4]) (\<lambda>alt.
       Inr \<lparr>wi_url = url, wi_title = title, wi_alt = alt\<rparr>)))"

definition candidate_web_images :: "json \<Rightarrow> exn + web_image list" where
  "candidate_web_images candidate =
     bindE (py_getitem candidate 12) (\<lambda>c12.
       if \<not> py_truthy c12 then Inr []
       else bindE (py_getitem c12 1) (\<lambda>c121.
         if \<not> py_truthy c121 then Inr []
         else bindE (py_iter c121) (mapE web_image_of)))"

text \<open>Line 581: \<^verbatim>\<open>candidate[12] and candidate[12][7] and candidate[12][7][0]\<close>, the
  generated-image marker, as a truth value.\<close>

definition generated_marker :: "json \<Rightarrow> exn + bool" where
  "generated_marker candidate =
     bindE (py_getitem candidate 12) (\<lambda>c12.
       if \<not> py_truthy c12 then Inr False
       else bindE (py_getitem c12 7) (\<lambda>c127.
         if \<not> py_truthy c127 then Inr False
         else bindE (py_getitem c127 0) (\<lambda>c1270. Inr (py_truthy c1270))))"

text \<open>The scan of lines 582-593 over the parts of the outer array, from part index \<open>i\<close> on:
  the first part at or after \<open>body_index\<close> whose payload has a truthy marker at the
  candidate's index.\<close>

fun scan_img_body ::
  "('w, 'm) deps \<Rightarrow> nat \<Rightarrow> nat \<Rightarrow> nat \<Rightarrow> json list \<Rightarrow> exn + json option" where
  "scan_img_body d body_index candidate_index i [] = Inr None"
| "scan_img_body d body_index candidate_index i (part # rest) =
     (if i < body_index then scan_img_body d body_index candidate_index (Suc i) rest
      else
        (case load_part d part of
           Inl e \<Rightarrow>
             if caught_ITV e then scan_img_body d body_index candidate_index (Suc i) rest
             else Inl e
         | Inr img_part \<Rightarrow>
             (case py_path img_part [4, int candidate_index, 12, 7, 0] of
                Inl e \<Rightarrow>
                  if caught_ITV e then scan_img_body d body_index candidate_index (Suc i) rest
                  else Inl e
              | Inr m \<Rightarrow>
                  if py_truthy m then Inr (Some img_part)
                  else scan_img_body d body_index candidate_index (Suc i) rest)))"

text \<open>Lines 609-622, for the image at \<open>image_index\<close>.\<close>

definition generated_image_of :: "nat \<Rightarrow> json \<Rightarrow> exn + generated_image" where
  "generated_image_of image_index g =
     bindE (py_path g [0, 3, 3]) (\<lambda>url.
     bindE (py_path g [3, 6]) (\<lambda>number.
     bindE (py_path g [3, 5]) (\<lambda>alts.
     bindE (py_len alts) (\<lambda>n.
     bindE (if n > image_index
            then bindE (py_getitem alts (int image_index)) (\<lambda>a.
                   if py_truthy a then Inr a else py_getitem alts 0)
            else py_getitem alts 0) (\<lambda>alt.
       Inr \<lparr>gi_url = url, gi_title_arg = number, gi_alt = alt\<rparr>)))))"

fun generated_images_from :: "nat \<Rightarrow> json list \<Rightarrow> exn + generated_image list" where
  "generated_images_from image_index [] = Inr []"
| "generated_images_from image_index (g # gs) =
     (case generated_image_of image_index g of
        Inl e \<Rightarrow> Inl e
      | Inr img \<Rightarrow>
          (case generated_images_from (Suc image_index) gs of
             Inl e \<Rightarrow> Inl e
           | Inr imgs \<Rightarrow> Inr (img # imgs)))"

text \<open>Lines 582-622: the text and the generated images of a candidate whose marker is
  present.\<close>

definition generated_part ::
  "('w, 'm) deps \<Rightarrow> json list \<Rightarrow> nat \<Rightarrow> nat \<Rightarrow> exn + json \<times> generated_image list" where
  "generated_part d parts body_index candidate_index =
     (case scan_img_body d body_index candidate_index 0 parts of
        Inl e \<Rightarrow> Inl e
      | Inr None \<Rightarrow> Inl ImageGenerationError
      | Inr (Some img_body) \<Rightarrow>
          if \<not> py_truthy img_body then Inl ImageGenerationError
          else
            bindE (py_path img_body [4, int candidate_index]) (\<lambda>img_candidate.
            bindE (py_path img_candidate [1, 0]) (\<lambda>t.
            bindE (case t of
                     JStr s \<Rightarrow> Inr (JStr (py_rstrip (re_sub_marker image_content_prefix s)))
                   | _ \<Rightarrow> Inl TypeError) (\<lambda>txt.
            bindE (py_path img_candidate [12, 7, 0]) (\<lambda>gs.
            bindE (py_iter gs) (\<lambda>items.
            bindE (generated_images_from 0 items) (\<lambda>imgs. Inr (txt, imgs))))))))"

text \<open>The body of the loop of lines 553-632, for the candidate at \<open>candidate_index\<close>.\<close>

definition parse_candidate ::
  "('w, 'm) deps \<Rightarrow> json list \<Rightarrow> nat \<Rightarrow> nat \<Rightarrow> json \<Rightarrow> exn + candidate" where
  "parse_candidate d parts body_index candidate_index candidate =
     bindE (candidate_text candidate) (\<lambda>txt.
     bindE (candidate_thoughts candidate) (\<lambda>thoughts.
     bindE (candidate_web_images candidate) (\<lambda>web_images.
     bindE (generated_marker candidate) (\<lambda>marker.
     bindE (if marker then generated_part d parts body_index candidate_index
            else Inr (txt, [])) (\<lambda>(txt', generated_images).
     bindE (py_getitem candidate 0) (\<lambda>rcid.
       Inr \<lparr>cand_rcid = rcid, cand_text = txt', cand_thoughts = thoughts,
            cand_web_images = web_images, cand_generated_images = generated_images\<rparr>))))))"

fun parse_candidates ::
  "('w, 'm) deps \<Rightarrow> json list \<Rightarrow> nat \<Rightarrow> nat \<Rightarrow> json list \<Rightarrow> exn + candidate list" where
  "parse_candidates d parts body_index candidate_index [] = Inr []"
| "parse_candidates d parts body_index candidate_index (candidate # rest) =
     (case parse_candidate d parts body_index candidate_index candidate of
        Inl e \<Rightarrow> Inl e
      | Inr c \<Rightarrow>
          (case parse_candidates d parts body_index (Suc candidate_index) rest of
             Inl e \<Rightarrow> Inl e
           | Inr cs \<Rightarrow> Inr (c # cs)))"

text \<open>Lines 551-643: a \<open>TypeError\<close> or \<open>IndexError\<close> becomes an \<open>APIError\<close>, every other
  exception is let through.\<close>

definition parse_output :: "('w, 'm) deps \<Rightarrow> json list \<Rightarrow> nat \<Rightarrow> json \<Rightarrow> exn + model_output" where
  "parse_output d parts body_index body =
     (case bindE (py_getitem body 4) (\<lambda>b4.
           bindE (py_iter b4) (\<lambda>cs.
           bindE (parse_candidates d parts body_index 0 cs) (\<lambda>candidates.
             if candidates = [] then Inl GeminiError
             else bindE (py_getitem body 1) (\<lambda>md. Inr (ModelOutput md candidates))))) of
        Inl e \<Rightarrow> if caught_TI e then Inl APIError else Inl e
      | Inr out \<Rightarrow> Inr out)"

section \<open>The core calls\<close>

text \<open>\<^verbatim>\<open>except ReadTimeout: raise TimeoutError(...)\<close>\<close>

definition on_read_timeout :: "exn \<Rightarrow> exn" where
  "on_read_timeout e = (if e = ReadTimeout then TimeoutError else e)"

subsection \<open>\<open>generate_content\<close>\<close>

text \<open>Lines 451-452.\<close>

definition resolve_model :: "('w, 'm) deps \<Rightarrow> 'm model_ref \<Rightarrow> exn + 'm" where
  "resolve_model d model = (case model of ModelEnum m \<Rightarrow> Inr m | ModelName n \<Rightarrow> d_from_name d n)"

text \<open>The comprehension of lines 476-482: each file is uploaded, then its name is parsed.\<close>

fun upload_all ::
  "('w, 'm) deps \<Rightarrow> string list \<Rightarrow> 'w \<Rightarrow> (exn + (string \<times> string) list) \<times> 'w" where
  "upload_all d [] w = (Inr [], w)"
| "upload_all d (file # files) w =
     (case d_upload_file d file w of
        (Inl e, w1) \<Rightarrow> (Inl e, w1)
      | (Inr ref, w1) \<Rightarrow>
          (case d_parse_file_name d file of
             Inl e \<Rightarrow> (Inl e, w1)
           | Inr name \<Rightarrow>
               (case upload_all d files w1 of
                  (Inl e, w2) \<Rightarrow> (Inl e, w2)
                | (Inr atts, w2) \<Rightarrow> (Inr ((ref, name) # atts), w2))))"

definition generate_request ::
  "('w, 'm) deps \<Rightarrow> 'w client \<Rightarrow> 'm \<Rightarrow> json list \<Rightarrow> 'm request" where
  "generate_request d c m envelope =
     \<lparr>rq_endpoint = GENERATE, rq_model = Some m, rq_at = access_token c,
      rq_f_req = d_dumps d (JArr [JNull, JStr (d_dumps d (JArr envelope))])\<rparr>"

text \<open>
  Lines 501-648, the response in hand.  A status other than 200 and a response without a
  body close the client; a failure while the candidates are read does not.  With a session,
  \<^verbatim>\<open>chat.last_output = output\<close> runs the hook of \<^verbatim>\<open>__setattr__\<close>, whose exceptions are
  not caught.
\<close>

definition handle_response ::
  "('w, 'm) deps \<Rightarrow> response \<Rightarrow> 'm chat_session option \<Rightarrow> 'w client
     \<Rightarrow> (exn + model_output) \<times> 'm chat_session option \<times> 'w client" where
  "handle_response d resp chat c =
     (if status_code resp \<noteq> 200 then (Inl APIError, chat, close c)
      else
        (case read_body d (response_text resp) of
           Inl e \<Rightarrow> (Inl e, chat, close c)
         | Inr (parts, body_index, body) \<Rightarrow>
             (case parse_output d parts body_index body of
                Inl e \<Rightarrow> (Inl e, chat, c)
              | Inr output \<Rightarrow>
                  (case chat of
                     None \<Rightarrow> (Inr output, None, c)
                   | Some s \<Rightarrow>
                       (case set_last_output output s of
                          (Some e, s') \<Rightarrow> (Inl e, Some s', c)
                        | (None, s') \<Rightarrow> (Inr output, Some s', c))))))"

text \<open>\<^verbatim>\<open>generate_content\<close> without its decorator (lines 449-648).\<close>

definition generate_content ::
  "('w, 'm) deps \<Rightarrow> string \<Rightarrow> string list option \<Rightarrow> 'm model_ref \<Rightarrow> gem_ref option
     \<Rightarrow> 'm chat_session option \<Rightarrow> 'w client
     \<Rightarrow> (exn + model_output) \<times> 'm chat_session option \<times> 'w client" where
  "generate_content d prompt files model gem chat c =
     (if prompt = [] then (Inl AssertionError, chat, c)
      else
        (case resolve_model d model of
           Inl e \<Rightarrow> (Inl e, chat, c)
         | Inr m \<Rightarrow>
             (let c1 = (if auto_close c then reset_close_task c else c) in
              case upload_all d (case files of None \<Rightarrow> [] | Some fs \<Rightarrow> fs) (world c1) of
                (Inl e, w1) \<Rightarrow> (Inl (on_read_timeout e), chat, c1\<lparr>world := w1\<rparr>)
              | (Inr atts, w1) \<Rightarrow>
                  (case d_post d (generate_request d c1 m (turn_envelope prompt atts chat gem)) w1 of
                     (Inl e, w2) \<Rightarrow> (Inl (on_read_timeout e), chat, c1\<lparr>world := w2\<rparr>)
                   | (Inr resp, w2) \<Rightarrow> handle_response d resp chat (c1\<lparr>world := w2\<rparr>)))))"

subsection \<open>\<open>fetch_gems\<close>\<close>

definition rpc_argument :: "char \<Rightarrow> string" where
  "rpc_argument k = [CHR ''['', k] @ '',['' @ [CHR 0x22] @ ''en'' @ [CHR 0x22] @ ''],0]''"

definition gems_request :: "('w, 'm) deps \<Rightarrow> 'w client \<Rightarrow> 'm request" where
  "gems_request d c =
     \<lparr>rq_endpoint = BATCH_EXEC, rq_model = None, rq_at = access_token c,
      rq_f_req = d_dumps d (JArr [JArr
        [JArr [JStr ''CNgdBe'', JStr (rpc_argument CHR ''2''), JNull, JStr ''custom''],
         JArr [JStr ''CNgdBe'', JStr (rpc_argument CHR ''3''), JNull, JStr ''system'']]])\<rparr>"

text \<open>The loop of lines 350-355 over the parts, with the two lists found so far.\<close>

fun gems_loop :: "('w, 'm) deps \<Rightarrow> json \<Rightarrow> json \<Rightarrow> json list \<Rightarrow> exn + json \<times> json" where
  "gems_loop d predefined_gems custom_gems [] = Inr (predefined_gems, custom_gems)"
| "gems_loop d predefined_gems custom_gems (part # rest) =
     (case py_getitem part (- 1) of
        Inl e \<Rightarrow> Inl e
      | Inr tag \<Rightarrow>
          if tag = JStr ''system'' then
            (case bindE (load_part d part) (\<lambda>j. py_getitem j 2) of
               Inl e \<Rightarrow> Inl e
             | Inr p \<Rightarrow> gems_loop d p custom_gems rest)
          else if tag = JStr ''custom'' then
            (case load_part d part of
               Inl e \<Rightarrow> Inl e
             | Inr container \<Rightarrow>
                 if py_truthy container then
                   (case py_getitem container 2 of
                      Inl e \<Rightarrow> Inl e
                    | Inr cu \<Rightarrow> gems_loop d predefined_gems cu rest)
                 else gems_loop d predefined_gems custom_gems rest)
          else gems_loop d predefined_gems custom_gems rest)"

text \<open>Lines 345-358: the two lists, or the exception raised inside the \<^verbatim>\<open>try\<close>.\<close>

definition parse_gems :: "('w, 'm) deps \<Rightarrow> string \<Rightarrow> exn + json \<times> json" where
  "parse_gems d txt =
     bindE (load_response_json d txt) (\<lambda>rj.
     bindE (py_iter rj) (\<lambda>parts.
     bindE (gems_loop d (JArr []) (JArr []) parts) (\<lambda>(predefined_gems, custom_gems).
       if \<not> py_truthy predefined_gems \<and> \<not> py_truthy custom_gems then Inl PlainException
       else Inr (predefined_gems, custom_gems))))"

text \<open>Lines 366-395.  The jar is a dict from gem id to gem, here the list of its items in
  insertion order; a list or a dict is not hashable and cannot be a key.\<close>

definition gem_of :: "bool \<Rightarrow> json \<Rightarrow> exn + json \<times> gem" where
  "gem_of is_predefined g =
     bindE (py_getitem g 0) (\<lambda>k.
     bindE (py_getitem g 0) (\<lambda>i.
     bindE (py_path g [1, 0]) (\<lambda>name.
     bindE (py_path g [1, 1]) (\<lambda>description.
     bindE (py_getitem g 2) (\<lambda>g2.
     bindE (if py_truthy g2 then bindE (py_getitem g2 0) (\<lambda>p. Inr (py_or p JNull))
            else Inr JNull) (\<lambda>prompt.
       Inr (k, \<lparr>g_id = i, g_name = name, g_description = description, g_prompt = prompt,
                g_predefined = is_predefined\<rparr>)))))))"

fun py_hashable :: "json \<Rightarrow> bool" where
  "py_hashable (JArr xs) = False"
| "py_hashable (JObj kvs) = False"
| "py_hashable v = True"

fun jar_add :: "bool \<Rightarrow> gem_jar \<Rightarrow> json list \<Rightarrow> exn + gem_jar" where
  "jar_add is_predefined jar [] = Inr jar"
| "jar_add is_predefined jar (g # gs) =
     (case gem_of is_predefined g of
        Inl e \<Rightarrow> Inl e
      | Inr (k, v) \<Rightarrow>
          if py_hashable k then jar_add is_predefined (AList.update k v jar) gs
          else Inl TypeError)"

definition GemJar :: "json \<Rightarrow> json \<Rightarrow> exn + gem_jar" where
  "GemJar predefined_gems custom_gems =
     bindE (py_iter predefined_gems) (\<lambda>ps.
     bindE (py_iter custom_gems) (\<lambda>cs.
     bindE (jar_add True [] ps) (\<lambda>jar. jar_add False jar cs)))"

text \<open>\<^verbatim>\<open>fetch_gems\<close> without its decorator (lines 318-397).  It takes no object besides the
  client.\<close>

definition fetch_gems ::
  "('w, 'm) deps \<Rightarrow> unit \<Rightarrow> 'w client \<Rightarrow> (exn + gem_jar) \<times> unit \<times> 'w client" where
  "fetch_gems d u c =
     (case d_post d (gems_request d c) (world c) of
        (Inl e, w) \<Rightarrow> (Inl (on_read_timeout e), u, c\<lparr>world := w\<rparr>)
      | (Inr resp, w) \<Rightarrow>
          (let c1 = c\<lparr>world := w\<rparr> in
           if status_code resp \<noteq> 200 then (Inl APIError, u, c1)
           else
             (case parse_gems d (response_text resp) of
                Inl e \<Rightarrow> (Inl APIError, u, close c1)
              | Inr (predefined_gems, custom_gems) \<Rightarrow>
                  (case GemJar predefined_gems custom_gems of
                     Inl e \<Rightarrow> (Inl e, u, c1)
                   | Inr jar \<Rightarrow> (Inr jar, u, c1\<lparr>gems := Some jar\<rparr>)))))"

subsection \<open>The decorated calls\<close>

text \<open>Both are declared with \<^verbatim>\<open>@running(retry=2)\<close>; a caller may pass another \<open>retry\<close>.\<close>

definition generate_content_running ::
  "('w, 'm) deps \<Rightarrow> int \<Rightarrow> string \<Rightarrow> string list option \<Rightarrow> 'm model_ref \<Rightarrow> gem_ref option
     \<Rightarrow> 'm chat_session option \<Rightarrow> 'w client
     \<Rightarrow> (exn + model_output) \<times> 'm chat_session option \<times> 'w client \<times> event list" where
  "generate_content_running d retry prompt files model gem chat c =
     wrapper d (generate_content d prompt files model gem) retry chat c"

definition fetch_gems_running ::
  "('w, 'm) deps \<Rightarrow> int \<Rightarrow> 'w client \<Rightarrow> (exn + gem_jar) \<times> unit \<times> 'w client \<times> event list" where
  "fetch_gems_running d retry c = wrapper d (fetch_gems d) retry () c"

text \<open>\<^verbatim>\<open>ChatSession.send_message\<close> (lines 777-784).\<close>

definition send_message ::
  "('w, 'm) deps \<Rightarrow> string \<Rightarrow> string list option \<Rightarrow> 'm chat_session \<Rightarrow> 'w client
     \<Rightarrow> (exn + model_output) \<times> 'm chat_session option \<times> 'w client \<times> event list" where
  "send_message d prompt files s c =
     generate_content_running d 2 prompt files (cs_model s) (cs_gem s) (Some s) c"

section \<open>Concrete inputs\<close>

text \<open>A session with a lineage, one with a last output of three candidates.\<close>

definition demo_session :: "unit chat_session" where
  "demo_session =
     \<lparr>cs_metadata = [JStr ''c1'', JStr ''r1'', JStr ''rc1''], cs_last_output = None,
      cs_model = ModelEnum (), cs_gem = None\<rparr>"

definition demo_candidate :: "string \<Rightarrow> candidate" where
  "demo_candidate r =
     \<lparr>cand_rcid = JStr r, cand_text = JStr ''text'', cand_thoughts = JNull,
      cand_web_images = [], cand_generated_images = []\<rparr>"

definition demo_output :: model_output where
  "demo_output =
     ModelOutput (JArr [JStr ''c1'', JStr ''r1''])
       [demo_candidate ''rcA'', demo_candidate ''rcB'', demo_candidate ''rcC'']"

definition demo_session_out :: "unit chat_session" where
  "demo_session_out =
     \<lparr>cs_metadata = [JStr ''c1'', JStr ''r1'', JStr ''rcA''],
      cs_last_output = Some demo_output, cs_model = ModelEnum (), cs_gem = None\<rparr>"

text \<open>Collaborators for concrete runs: the access token is acquired or refused as given,
  every request is answered by the given response, the state of the world counts the
  requests; the table of error codes is a sample.\<close>

definition demo_error_code :: "int \<Rightarrow> error_code option" where
  "demo_error_code n =
     (if n = 1037 then Some USAGE_LIMIT_EXCEEDED
      else if n = 1052 then Some MODEL_HEADER_INVALID
      else if n = 1060 then Some IP_TEMPORARILY_BLOCKED
      else None)"

definition demo_deps ::
  "(exn + string \<times> (string \<times> string) list) \<Rightarrow> response \<Rightarrow> (string \<Rightarrow> json option)
     \<Rightarrow> (nat, unit) deps" where
  "demo_deps auth resp loads =
     \<lparr>d_get_access_token = (\<lambda>ck w. (auth, w)),
      d_post = (\<lambda>rq w. (Inr resp, Suc w)),
      d_upload_file = (\<lambda>f w. (Inr f, w)),
      d_parse_file_name = Inr,
      d_dumps = (\<lambda>j. []),
      d_loads = loads,
      d_error_code = demo_error_code,
      d_from_name = (\<lambda>n. Inl ValueError)\<rparr>"

definition demo_client :: "bool \<Rightarrow> nat client" where
  "demo_client r =
     \<lparr>cookies = [(''__Secure-1PSID'', ''sid'')], running = r, access_token = None,
      auto_close = False, close_task = False, auto_refresh = False, rotate_tasks = {},
      gems = None, world = 0\<rparr>"

text \<open>A wrapped function that fails with \<open>ImageGenerationError\<close> whenever it is invoked.\<close>

definition always_image_error :: "unit \<Rightarrow> nat client \<Rightarrow> (exn + unit) \<times> unit \<times> nat client" where
  "always_image_error u c = (Inl ImageGenerationError, u, c\<lparr>world := Suc (world c)\<rparr>)"

text \<open>The session that \<^verbatim>\<open>start_chat()\<close> returns.\<close>

definition demo_fresh_session :: "unit chat_session" where
  "demo_fresh_session =
     \<lparr>cs_metadata = [JNull, JNull, JNull], cs_last_output = None,
      cs_model = ModelEnum (), cs_gem = None\<rparr>"

text \<open>A response whose line 2 is an outer array of one part that carries an error code and
  no payload; \<open>demo_loads\<close> stands for \<^verbatim>\<open>json.loads\<close> on the strings of the concrete runs.\<close>

definition demo_blocked_json :: json where
  "demo_blocked_json =
     JArr [JArr [JStr ''er'', JNull, JNull, JNull, JNull,
                 JArr [JNull, JNull, JArr [JArr [JNull, JArr [JNum 1060]]]]]]"

text \<open>
  A response whose line 2 is an outer array of one part, the body.  The body has one
  candidate, whose image container holds one generated image and whose text ends with the
  placeholder of that image.  No other part follows the body.
\<close>

definition demo_generated_image :: json where
  "demo_generated_image =
     JArr [JArr [JNull, JNull, JNull, JArr [JNull, JNull, JNull, JStr ''https://img/1'']],
           JNull, JNull,
           JArr [JNull, JNull, JNull, JNull, JNull, JArr [JStr ''a cat''], JNum 1]]"

definition demo_image_candidate :: json where
  "demo_image_candidate =
     JArr [JStr ''rcA'',
           JArr [JStr ''A cat http://googleusercontent.com/image_generation_content/0''],
           JNull, JNull, JNull, JNull, JNull, JNull, JNull, JNull, JNull, JNull,
           JArr [JNull, JNull, JNull, JNull, JNull, JNull, JNull,
                 JArr [JArr [demo_generated_image]]]]"

definition demo_image_body :: json where
  "demo_image_body =
     JArr [JNull, JArr [JStr ''c1'', JStr ''r1''], JNull, JNull, JArr [demo_image_candidate]]"

definition demo_image_part :: json where
  "demo_image_part = JArr [JNull, JNull, JStr ''body'']"

definition demo_loads :: "string \<Rightarrow> json option" where
  "demo_loads s =
     (if s = ''blocked'' then Some demo_blocked_json
      else if s = ''outer'' then Some (JArr [demo_image_part])
      else if s = ''body'' then Some demo_image_body
      else None)"

definition demo_text :: "string \<Rightarrow> string" where
  "demo_text line = ''x'' @ [CHR 0x0A] @ ''y'' @ [CHR 0x0A] @ line"


section \<open>Properties of the session\<close>

text \<open>The lineage list has three slots from the constructor on, and no setter changes
  that.\<close>

lemma set_metadata_length:
  "set_metadata v s = Inr s' \<Longrightarrow> length (cs_metadata s) = 3 \<Longrightarrow> length (cs_metadata s') = 3"
  by (cases v) (auto simp: set_metadata_def split: if_splits)

lemma set_slot_length:
  "set_slot k v s = Inr s' \<Longrightarrow> length (cs_metadata s') = length (cs_metadata s)"
  by (auto simp: set_slot_def split: if_splits)

lemma apply_if_truthy_length:
  assumes "apply_if_truthy f v s = Inr s'" and "length (cs_metadata s) = 3"
      and "\<And>t t'. f v t = Inr t' \<Longrightarrow> length (cs_metadata t) = 3 \<Longrightarrow> length (cs_metadata t') = 3"
  shows "length (cs_metadata s') = 3"
  using assms by (auto simp: apply_if_truthy_def split: if_splits)

lemma ChatSession_init_length:
  assumes "ChatSession_init metadata cid rid rcid model gem = Inr s"
  shows "length (cs_metadata s) = 3"
proof -
  let ?s0 = "\<lparr>cs_metadata = [JNull, JNull, JNull], cs_last_output = None,
              cs_model = model, cs_gem = gem\<rparr>"
  from assms obtain s1 s2 s3 where
      1: "apply_if_truthy set_metadata metadata ?s0 = Inr s1"
  and 2: "apply_if_truthy set_cid cid s1 = Inr s2"
  and 3: "apply_if_truthy set_rid rid s2 = Inr s3"
  and 4: "apply_if_truthy set_rcid rcid s3 = Inr s"
    by (auto simp: ChatSession_init_def bindE_def Let_def split: sum.splits)
  have "length (cs_metadata s1) = 3"
    using 1 by (rule apply_if_truthy_length) (simp_all add: set_metadata_length)
  then have "length (cs_metadata s2) = 3"
    using 2 by (auto simp: apply_if_truthy_def set_cid_def dest: set_slot_length split: if_splits)
  then have "length (cs_metadata s3) = 3"
    using 3 by (auto simp: apply_if_truthy_def set_rid_def dest: set_slot_length split: if_splits)
  then show ?thesis
    using 4 by (auto simp: apply_if_truthy_def set_rcid_def dest: set_slot_length split: if_splits)
qed

lemma set_last_output_length:
  assumes "length (cs_metadata s) = 3"
  shows "length (cs_metadata (snd (set_last_output out s))) = 3"
proof -
  let ?s1 = "s\<lparr>cs_last_output := Some out\<rparr>"
  have 1: "length (cs_metadata ?s1) = 3" using assms by simp
  show ?thesis
  proof (cases "set_metadata (mo_metadata out) ?s1")
    case (Inl e)
    then show ?thesis using 1 by (simp add: set_last_output_def Let_def)
  next
    case (Inr s2)
    then have 2: "length (cs_metadata s2) = 3" using 1 by (rule set_metadata_length)
    show ?thesis using Inr 2
      by (auto simp: set_last_output_def Let_def set_rcid_def
               dest: set_slot_length split: sum.splits)
  qed
qed

lemma choose_candidate_length:
  "length (cs_metadata (snd (choose_candidate i s))) = length (cs_metadata s)"
  by (auto simp: choose_candidate_def Let_def set_rcid_def set_slot_def
           split: option.splits sum.splits if_splits)

text \<open>
  C9.  On a session whose lineage has its three slots, the bulk setter rejects a list of
  more than three elements with \<open>ValueError\<close>; a list of \<open>k \<le> 3\<close> elements becomes the first
  \<open>k\<close> slots, the slots from \<open>k\<close> on and every other field of the session are kept.  The
  setters of \<open>cid\<close>, \<open>rid\<close> and \<open>rcid\<close> write slot 0, 1 and 2 and nothing else.
\<close>

theorem metadata_setters_frame:
  assumes "length (cs_metadata s) = 3"
  shows "(length vs > 3 \<longrightarrow> set_metadata (JArr vs) s = Inl ValueError)
       \<and> (length vs \<le> 3 \<longrightarrow>
            (\<exists>s'. set_metadata (JArr vs) s = Inr s'
                \<and> take (length vs) (get_metadata s') = vs
                \<and> drop (length vs) (get_metadata s') = drop (length vs) (get_metadata s)
                \<and> length (get_metadata s') = 3
                \<and> s' = s\<lparr>cs_metadata := get_metadata s'\<rparr>))
       \<and> (\<exists>s'. set_cid v s = Inr s' \<and> get_metadata s' = (get_metadata s)[0 := v]
                \<and> s' = s\<lparr>cs_metadata := get_metadata s'\<rparr>)
       \<and> (\<exists>s'. set_rid v s = Inr s' \<and> get_metadata s' = (get_metadata s)[1 := v]
                \<and> s' = s\<lparr>cs_metadata := get_metadata s'\<rparr>)
       \<and> (\<exists>s'. set_rcid v s = Inr s' \<and> get_metadata s' = (get_metadata s)[2 := v]
                \<and> s' = s\<lparr>cs_metadata := get_metadata s'\<rparr>)"
  using assms
  by (simp add: set_metadata_def set_cid_def set_rid_def set_rcid_def set_slot_def
        get_metadata_def)

theorem metadata_setters_frame_witness:
  "length (cs_metadata demo_session) = 3
   \<and> set_metadata (JArr [JStr ''c2'', JStr ''r2'']) demo_session
       = Inr (demo_session\<lparr>cs_metadata := [JStr ''c2'', JStr ''r2'', JStr ''rc1'']\<rparr>)
   \<and> set_metadata (JArr [JStr ''a'', JStr ''b'', JStr ''c'', JStr ''d'']) demo_session
       = Inl ValueError
   \<and> set_rid (JStr ''r3'') demo_session
       = Inr (demo_session\<lparr>cs_metadata := [JStr ''c1'', JStr ''r3'', JStr ''rc1'']\<rparr>)"
  using metadata_setters_frame [of demo_session "[JStr ''c2'', JStr ''r2'']" "JStr ''r3''"]
        metadata_setters_frame
          [of demo_session "[JStr ''a'', JStr ''b'', JStr ''c'', JStr ''d'']" "JStr ''r3''"]
  by (simp add: demo_session_def set_metadata_def set_rid_def set_slot_def)

text \<open>
  C8.  \<open>choose_candidate\<close> raises \<open>ValueError\<close> and changes nothing when the session has no
  last output or the index is at least the number of candidates.  For an index from 0 up
  to that number, it returns the last output with \<open>chosen\<close> set to the index and otherwise
  unchanged, the session holds that same output, and the session's \<open>rcid\<close> is the id of the
  candidate at the index; the other two slots and the other fields are kept.
\<close>

theorem choose_candidate_spec:
  assumes "length (cs_metadata s) = 3"
  shows "(cs_last_output s = None \<longrightarrow> choose_candidate i s = (Inl ValueError, s))
   \<and> (\<forall>out. cs_last_output s = Some out \<and> i \<ge> int (length (mo_candidates out))
         \<longrightarrow> choose_candidate i s = (Inl ValueError, s))
   \<and> (\<forall>out. cs_last_output s = Some out \<and> 0 \<le> i \<and> i < int (length (mo_candidates out))
         \<longrightarrow> (\<exists>s'. choose_candidate i s = (Inr (out\<lparr>mo_chosen := i\<rparr>), s')
                \<and> cs_last_output s' = Some (out\<lparr>mo_chosen := i\<rparr>)
                \<and> get_rcid s' = Inr (cand_rcid (mo_candidates out ! nat i))
                \<and> cs_metadata s' = (cs_metadata s)[2 := cand_rcid (mo_candidates out ! nat i)]
                \<and> cs_model s' = cs_model s \<and> cs_gem s' = cs_gem s))"
  using assms
  by (auto simp: choose_candidate_def ModelOutput_rcid_def py_index_def set_rcid_def
        set_slot_def get_rcid_def Let_def)

theorem choose_candidate_spec_witness:
  "length (cs_metadata demo_session_out) = 3
   \<and> choose_candidate 3 demo_session_out = (Inl ValueError, demo_session_out)
   \<and> fst (choose_candidate 1 demo_session_out) = Inr (demo_output\<lparr>mo_chosen := 1\<rparr>)
   \<and> get_rcid (snd (choose_candidate 1 demo_session_out)) = Inr (JStr ''rcB'')"
  using choose_candidate_spec [of demo_session_out 3]
        choose_candidate_spec [of demo_session_out 1]
  by (auto simp: demo_session_out_def demo_output_def ModelOutput_def demo_candidate_def)

text \<open>
  C10.  With \<open>n \<ge> 1\<close> candidates in the last output and \<open>-n \<le> i < 0\<close>, \<open>choose_candidate i\<close>
  raises nothing: \<open>chosen\<close> becomes the negative \<open>i\<close> itself, and the session's \<open>rcid\<close> is the
  id of the candidate at position \<open>n + i\<close>.
\<close>

theorem choose_candidate_negative:
  assumes "length (cs_metadata s) = 3"
      and "cs_last_output s = Some out"
      and "1 \<le> length (mo_candidates out)"
      and "- int (length (mo_candidates out)) \<le> i" and "i < 0"
  shows "\<exists>s'. choose_candidate i s = (Inr (out\<lparr>mo_chosen := i\<rparr>), s')
           \<and> cs_last_output s' = Some (out\<lparr>mo_chosen := i\<rparr>)
           \<and> get_rcid s' =
               Inr (cand_rcid (mo_candidates out ! nat (int (length (mo_candidates out)) + i)))
           \<and> cs_metadata s' = (cs_metadata s)
               [2 := cand_rcid (mo_candidates out ! nat (int (length (mo_candidates out)) + i))]"
  using assms
  by (auto simp: choose_candidate_def ModelOutput_rcid_def py_index_def set_rcid_def
        set_slot_def get_rcid_def Let_def)

theorem choose_candidate_negative_witness:
  "length (cs_metadata demo_session_out) = 3
   \<and> cs_last_output demo_session_out = Some demo_output
   \<and> 1 \<le> length (mo_candidates demo_output)
   \<and> - int (length (mo_candidates demo_output)) \<le> -1 \<and> (-1::int) < 0
   \<and> fst (choose_candidate (-1) demo_session_out) = Inr (demo_output\<lparr>mo_chosen := -1\<rparr>)
   \<and> get_rcid (snd (choose_candidate (-1) demo_session_out)) = Inr (JStr ''rcC'')"
proof -
  have h: "length (cs_metadata demo_session_out) = 3"
     "cs_last_output demo_session_out = Some demo_output"
     "1 \<le> length (mo_candidates demo_output)"
     "- int (length (mo_candidates demo_output)) \<le> -1" "(-1::int) < 0"
    by (simp_all add: demo_session_out_def demo_output_def ModelOutput_def)
  from choose_candidate_negative [OF h] h show ?thesis
    by (auto simp: demo_output_def ModelOutput_def demo_candidate_def)
qed

section \<open>Properties of the decorator\<close>

text \<open>\<open>init\<close> leaves the client running exactly when it returns without an exception, so
  the branch of line 62 (\<open>init\<close> returned and the client is not running) is never taken.\<close>

lemma init_running:
  "init d ac ar c = (r, c1) \<Longrightarrow> running c1 = (r = Inr ())"
  by (auto simp: init_def close_def reset_close_task_def Let_def
           split: prod.splits sum.splits option.splits if_splits)

lemma init_error_source:
  assumes "init d ac ar c = (Inl e, c1)"
  shows "fst (d_get_access_token d (cookies c) (world c)) = Inl e \<or> e = KeyError"
  using assms
  by (auto simp: init_def Let_def split: prod.splits sum.splits option.splits)

lemma attempt_invocations: "invocations (snd (snd (snd (attempt d func x c)))) \<le> 1"
  by (auto simp: attempt_def invocations_def split: prod.splits sum.splits)

lemma attempt_no_call_or_func:
  "attempt d func x c = (r, x', c', tr) \<Longrightarrow>
     (invocations tr = 0 \<or> (invocations tr = 1 \<and> (\<exists>x0 c0. func x0 c0 = (r, x', c'))))"
  by (auto simp: attempt_def invocations_def split: prod.splits sum.splits if_splits)

text \<open>With no budget left the wrapped call is one attempt.\<close>

lemma wrapper_last:
  assumes "retry \<le> 0"
  shows "wrapper d func retry x c = attempt d func x c"
  using assms
  by (subst wrapper.simps) (auto simp: retry_budget_def Let_def split: prod.splits sum.splits)

lemma wrapper_invocations_le2:
  assumes "\<And>x c. fst (func x c) = Inl ImageGenerationError"
  shows "invocations (snd (snd (snd (wrapper d func retry x c)))) \<le> 2"
  using assms
proof (induction d func retry x c rule: wrapper.induct)
  case (1 d func retry x c)
  obtain r x' c' tr where a: "attempt d func x c = (r, x', c', tr)"
    by (cases "attempt d func x c") auto
  show ?case
  proof (cases r)
    case (Inr v)
    then show ?thesis using a attempt_invocations[of d func x c]
      by (subst wrapper.simps) simp
  next
    case (Inl e)
    show ?thesis
    proof (cases "retry_budget e retry")
      case None
      then show ?thesis using a Inl attempt_invocations[of d func x c]
        by (subst wrapper.simps) simp
    next
      case (Some retry')
      obtain r2 x2 c2 tr2 where w: "wrapper d func retry' x' c' = (r2, x2, c2, tr2)"
        by (cases "wrapper d func retry' x' c'") auto
      have eq: "wrapper d func retry x c = (r2, x2, c2, tr @ EvSleep # tr2)"
        using a Inl Some w by (subst wrapper.simps) simp
      from attempt_no_call_or_func[OF a] show ?thesis
      proof
        assume "invocations tr = 0"
        moreover have "invocations tr2 \<le> 2"
          using "1.IH"[OF a[symmetric] Inl refl refl Some "1.prems"] w by simp
        ultimately show ?thesis using eq by (simp add: invocations_def)
      next
        assume h: "invocations tr = 1 \<and> (\<exists>x0 c0. func x0 c0 = (r, x', c'))"
        then obtain x0 c0 where "func x0 c0 = (r, x', c')" by blast
        then have "fst (func x0 c0) = Inl e" using Inl by simp
        then have "e = ImageGenerationError" using "1.prems"[of x0 c0] by simp
        then have "retry' \<le> 0"
          using Some by (auto simp: retry_budget_def Let_def split: if_splits)
        then have "invocations tr2 \<le> 1"
          using w wrapper_last[of retry' d func x' c'] attempt_invocations[of d func x' c']
          by simp
        then show ?thesis using eq h by (simp add: invocations_def)
      qed
    qed
  qed
qed

lemma wrapper_after_image_error:
  assumes "attempt d func x c = (Inl ImageGenerationError, x', c', tr)"
  shows "wrapper d func retry x c =
           (if retry \<ge> 1
            then (case attempt d func x' c' of
                    (r, x'', c'', tr') \<Rightarrow> (r, x'', c'', tr @ EvSleep # tr'))
            else (Inl ImageGenerationError, x', c', tr))"
  using assms wrapper_last[of 0 d func x' c']
  by (subst wrapper.simps)
     (auto simp: retry_budget_def isinstance_APIError_def Let_def min_def split: prod.splits)

text \<open>
  C1.  Let the client not be running when a wrapped call starts, and let the acquisition of
  the access token fail with no \<open>APIError\<close> (\<^verbatim>\<open>get_access_token\<close> is not at hand; by
  section 4.1 of the specification it fails with \<open>AuthError\<close>).  Then \<open>init\<close> runs first.  When it raises, the client
  is not running and the wrapped call ends with that exception whatever the retry budget:
  the wrapped function is not invoked and nothing is retried.  When it returns, the client
  is running and the wrapped function is invoked right after it.
\<close>

theorem init_before_first_attempt:
  assumes "\<not> running c"
      and "\<forall>e. fst (d_get_access_token d (cookies c) (world c)) = Inl e
                \<longrightarrow> \<not> isinstance_APIError e"
  shows "case init d (auto_close c) (auto_refresh c) c of
           (Inl e, c1) \<Rightarrow>
             \<not> running c1 \<and> wrapper d func retry x c = (Inl e, x, c1, [EvInit])
         | (Inr u, c1) \<Rightarrow>
             running c1
             \<and> attempt d func x c =
                 (case func x c1 of (r, x', c2) \<Rightarrow> (r, x', c2, [EvInit, EvCall]))
             \<and> (\<exists>tr. trace_of (wrapper d func retry x c) = EvInit # EvCall # tr)"
proof (cases "init d (auto_close c) (auto_refresh c) c")
  case (Pair r c1)
  show ?thesis
  proof (cases r)
    case (Inl e)
    with Pair init_error_source[of d "auto_close c" "auto_refresh c" c e c1] assms(2)
    have "\<not> isinstance_APIError e" by (auto simp: isinstance_APIError_def)
    then have n: "retry_budget e retry = None"
      by (simp add: retry_budget_def)
    have a: "attempt d func x c = (Inl e, x, c1, [EvInit])"
      using assms(1) Pair Inl by (simp add: attempt_def)
    have "wrapper d func retry x c = (Inl e, x, c1, [EvInit])"
      using a n by (subst wrapper.simps) simp
    moreover have "\<not> running c1" using init_running[OF Pair] Inl by simp
    ultimately show ?thesis using Pair Inl by simp
  next
    case (Inr u)
    have r: "running c1" using init_running[OF Pair] Inr by simp
    have a: "attempt d func x c =
               (case func x c1 of (r, x', c2) \<Rightarrow> (r, x', c2, [EvInit, EvCall]))"
      using assms(1) Pair Inr r by (simp add: attempt_def)
    have "\<exists>tr. trace_of (wrapper d func retry x c) = EvInit # EvCall # tr"
      using a
      by (subst wrapper.simps)
         (auto simp: trace_of_def split: prod.splits sum.splits option.splits)
    then show ?thesis using Pair Inr r a by simp
  qed
qed

theorem init_before_first_attempt_witness:
  "\<not> running (demo_client False)
   \<and> fst (d_get_access_token
              (demo_deps (Inl AuthError) \<lparr>status_code = 200, response_text = []\<rparr> (\<lambda>s. None))
              (cookies (demo_client False)) (world (demo_client False))) = Inl AuthError
   \<and> wrapper (demo_deps (Inl AuthError) \<lparr>status_code = 200, response_text = []\<rparr> (\<lambda>s. None))
        always_image_error 3 () (demo_client False)
      = (Inl AuthError, (), demo_client False, [EvInit])
   \<and> trace_of
        (wrapper (demo_deps (Inr (''token'', [(''__Secure-1PSID'', ''sid'')]))
                    \<lparr>status_code = 200, response_text = []\<rparr> (\<lambda>s. None))
           always_image_error 3 () (demo_client False))
      = [EvInit, EvCall, EvSleep, EvCall]"
  using init_before_first_attempt
          [of "demo_client False"
              "demo_deps (Inl AuthError) \<lparr>status_code = 200, response_text = []\<rparr> (\<lambda>s. None)"
              always_image_error 3 "()"]
        init_before_first_attempt
          [of "demo_client False"
              "demo_deps (Inr (''token'', [(''__Secure-1PSID'', ''sid'')]))
                 \<lparr>status_code = 200, response_text = []\<rparr> (\<lambda>s. None)"
              always_image_error 3 "()"]
  by (simp add: always_image_error_def wrapper.simps attempt_def demo_client_def demo_deps_def
        init_def close_def retry_budget_def isinstance_APIError_def trace_of_def)

text \<open>
  C2.  When every invocation of the wrapped function fails with \<open>ImageGenerationError\<close>, a
  wrapped call with budget 3, and with any budget, invokes it at most twice.  More
  generally, after an attempt that failed with \<open>ImageGenerationError\<close> there is one more
  attempt and no further retry when the budget is at least 1, and none otherwise.
\<close>

theorem image_generation_error_one_retry:
  "((\<forall>x c. fst (func x c) = Inl ImageGenerationError)
      \<longrightarrow> invocations (trace_of (wrapper d func 3 x c)) \<le> 2
        \<and> invocations (trace_of (wrapper d func retry x c)) \<le> 2)
   \<and> (\<forall>x' c' tr. attempt d func x c = (Inl ImageGenerationError, x', c', tr) \<longrightarrow>
         wrapper d func retry x c =
           (if retry \<ge> 1
            then (case attempt d func x' c' of
                    (r, x'', c'', tr') \<Rightarrow> (r, x'', c'', tr @ EvSleep # tr'))
            else (Inl ImageGenerationError, x', c', tr)))"
  using wrapper_invocations_le2[of func d] wrapper_after_image_error[of d func x c]
  by (auto simp: trace_of_def)

theorem image_generation_error_one_retry_witness:
  "(\<forall>x c. fst (always_image_error x c) = Inl ImageGenerationError)
   \<and> wrapper (demo_deps (Inl AuthError) \<lparr>status_code = 200, response_text = []\<rparr> (\<lambda>s. None))
        always_image_error 3 () (demo_client True)
      = (Inl ImageGenerationError, (), (demo_client True)\<lparr>world := 2\<rparr>,
         [EvCall, EvSleep, EvCall])
   \<and> invocations [EvCall, EvSleep, EvCall] = 2"
  using image_generation_error_one_retry
          [of always_image_error
              "demo_deps (Inl AuthError) \<lparr>status_code = 200, response_text = []\<rparr> (\<lambda>s. None)"
              "()" "demo_client True" 3]
  by (simp add: always_image_error_def wrapper.simps attempt_def demo_client_def
        retry_budget_def isinstance_APIError_def invocations_def)

section \<open>Properties of the encoder\<close>

text \<open>
  C3, as stated, fails: a session that was just created and has completed no turn has the
  lineage \<open>[None, None, None]\<close>, and a request made through it carries that null-filled
  array in the lineage slot, not \<open>null\<close>.
\<close>

theorem fresh_session_lineage_counterexample:
  "start_chat () = Inr demo_fresh_session
   \<and> cs_last_output demo_fresh_session = None
   \<and> turn_envelope ''hi'' [] (Some demo_fresh_session) None
       = [JArr [JStr ''hi''], JNull, JArr [JNull, JNull, JNull]]
   \<and> lineage_slot (Some demo_fresh_session) \<noteq> JNull"
  by (simp add: start_chat_def ChatSession_init_def apply_if_truthy_def bindE_def
        demo_fresh_session_def turn_envelope_def content_envelope_def lineage_slot_def
        get_metadata_def gem_suffix_def gem_value_def)

text \<open>
  C3, amended.  The lineage slot (index 2 of the turn envelope) is \<open>null\<close> for a request made
  without a session.  For a request made through a session it is the session's lineage
  list, whatever the session has done; for the session that \<^verbatim>\<open>start_chat()\<close> returns, which
  has no last output, it is \<open>[null, null, null]\<close>.
\<close>

theorem lineage_slot_spec:
  "turn_envelope prompt atts (None :: 'm chat_session option) gem ! 2 = JNull
   \<and> (\<forall>s :: 'm chat_session. turn_envelope prompt atts (Some s) gem ! 2 = JArr (get_metadata s))
   \<and> (\<forall>s :: 'm chat_session. start_chat u = Inr s \<longrightarrow>
         cs_last_output s = None
         \<and> turn_envelope prompt atts (Some s) gem ! 2 = JArr [JNull, JNull, JNull])"
  by (auto simp: turn_envelope_def lineage_slot_def start_chat_def ChatSession_init_def
        apply_if_truthy_def bindE_def get_metadata_def)

theorem lineage_slot_spec_witness:
  "start_chat () = Inr demo_fresh_session
   \<and> turn_envelope ''hi'' [] (Some demo_fresh_session) None ! 2 = JArr [JNull, JNull, JNull]
   \<and> turn_envelope ''hi'' [] (None :: unit chat_session option) None ! 2 = JNull"
  using lineage_slot_spec [of "''hi''" "[]" None "()"]
  by (simp add: start_chat_def ChatSession_init_def apply_if_truthy_def bindE_def
        demo_fresh_session_def get_metadata_def)

text \<open>
  C4, as stated, fails: the gem is tested for truth, so a gem id that is the empty string
  is supplied and yet nothing is appended.
\<close>

theorem empty_gem_id_counterexample:
  "turn_envelope ''hi'' [] (None :: unit chat_session option) (Some (GemId ''''))
     = [JArr [JStr ''hi''], JNull, JNull]"
  by (simp add: turn_envelope_def content_envelope_def lineage_slot_def gem_suffix_def
        gem_value_def)

text \<open>
  C4, amended.  When the gem id is truthy (for an id given as a str: not empty), the turn
  envelope is its three leading slots, then 16 \<open>null\<close>s, then the gem id: 20 elements, the
  gem id at position 17 after the lineage slot and \<open>null\<close> at positions 1 to 16 after it.
  When no gem is given, or its id is falsy, the envelope is the three leading slots.
\<close>

theorem gem_suffix_spec:
  "(py_truthy (gem_value gem) \<longrightarrow>
      turn_envelope prompt atts chat gem
        = [content_envelope prompt atts, JNull, lineage_slot chat]
          @ replicate 16 JNull @ [gem_value gem]
      \<and> length (turn_envelope prompt atts chat gem) = 3 + 17
      \<and> turn_envelope prompt atts chat gem ! (2 + 17) = gem_value gem
      \<and> (\<forall>k. 1 \<le> k \<and> k \<le> 16 \<longrightarrow> turn_envelope prompt atts chat gem ! (2 + k) = JNull))
   \<and> (\<not> py_truthy (gem_value gem) \<longrightarrow>
      turn_envelope prompt atts chat gem = [content_envelope prompt atts, JNull, lineage_slot chat])
   \<and> \<not> py_truthy (gem_value None)
   \<and> py_truthy (gem_value (Some (GemId i))) = (i \<noteq> [])
   \<and> py_truthy (gem_value (Some (GemObject g))) = py_truthy (g_id g)"
proof -
  have "\<And>k. 1 \<le> k \<Longrightarrow> k \<le> 16 \<Longrightarrow>
          ([content_envelope prompt atts, JNull, lineage_slot chat]
            @ replicate 16 JNull @ [gem_value gem]) ! (2 + k) = JNull"
  proof -
    fix k :: nat assume k: "1 \<le> k" "k \<le> 16"
    have "([content_envelope prompt atts, JNull, lineage_slot chat]
            @ (replicate 16 JNull @ [gem_value gem])) ! (2 + k)
          = (replicate 16 JNull @ [gem_value gem]) ! (k - 1)"
      using k by (simp add: nth_append)
    also have "\<dots> = JNull"
    proof -
      have "k - 1 < 16" using k by arith
      then show ?thesis by (simp add: nth_append)
    qed
    finally show "([content_envelope prompt atts, JNull, lineage_slot chat]
            @ replicate 16 JNull @ [gem_value gem]) ! (2 + k) = JNull" .
  qed
  moreover have "([content_envelope prompt atts, JNull, lineage_slot chat]
            @ replicate 16 JNull @ [gem_value gem]) ! (2 + 17) = gem_value gem"
    by (simp add: nth_append)
  ultimately show ?thesis
    by (simp add: turn_envelope_def gem_suffix_def gem_value_def)
qed

theorem gem_suffix_spec_witness:
  "py_truthy (gem_value (Some (GemId ''coding-partner'')))
   \<and> turn_envelope ''hi'' [] (None :: unit chat_session option) (Some (GemId ''coding-partner''))
       = [JArr [JStr ''hi''], JNull, JNull] @ replicate 16 JNull @ [JStr ''coding-partner'']
   \<and> \<not> py_truthy (gem_value None)
   \<and> turn_envelope ''hi'' [] (None :: unit chat_session option) None
       = [JArr [JStr ''hi''], JNull, JNull]"
  using gem_suffix_spec
          [of "Some (GemId ''coding-partner'')" "''hi''" "[]" "None :: unit chat_session option"]
        gem_suffix_spec [of None "''hi''" "[]" "None :: unit chat_session option"]
  by (simp add: gem_value_def content_envelope_def lineage_slot_def)

section \<open>Properties of the response parser\<close>

lemma find_body_none_locate:
  "py_iter rj = Inr parts \<Longrightarrow> find_body d 0 parts = Inr None
     \<Longrightarrow> locate_body d rj = Inl PlainException"
  by (simp add: locate_body_def bindE_def)

lemma handle_response_no_body:
  assumes "status_code resp = 200"
      and "load_response_json d (response_text resp) = Inr rj"
      and "locate_body d rj = Inl e"
  shows "handle_response d resp chat c = (Inl (classify_failure d (Some rj)), chat, close c)"
  using assms by (simp add: handle_response_def read_body_def)

lemma handle_response_unreadable:
  assumes "status_code resp = 200"
      and "load_response_json d (response_text resp) = Inl e"
  shows "handle_response d resp chat c = (Inl APIError, chat, close c)"
  using assms by (simp add: handle_response_def read_body_def classify_failure_def)

lemma classify_failure_cases:
  "classify_failure d (Some rj) =
     (case bindE (py_path rj [0, 5, 2, 0, 1, 0]) (ErrorCode d) of
        Inl e \<Rightarrow> APIError
      | Inr USAGE_LIMIT_EXCEEDED \<Rightarrow> UsageLimitExceeded
      | Inr MODEL_HEADER_INVALID \<Rightarrow> ModelInvalid
      | Inr IP_TEMPORARILY_BLOCKED \<Rightarrow> TemporarilyBlocked)"
  by (simp add: classify_failure_def error_code_position_def isinstance_GeminiError_def
           split: sum.splits error_code.splits)

text \<open>
  C6.  Let the response have status 200 and let no part of its outer array yield a body.
  Then the client is closed and the exception raised is decided by the value at position
  \<open>[0][5][2][0][1][0]\<close> of the outer array, looked up in \<open>ErrorCode\<close>: \<open>TemporarilyBlocked\<close>
  for \<open>IP_TEMPORARILY_BLOCKED\<close>, \<open>UsageLimitExceeded\<close> and \<open>ModelInvalid\<close> for the other two
  members, and \<open>APIError\<close> when the position cannot be read or holds no member's value.
\<close>

theorem structural_failure_classification:
  assumes "status_code resp = 200"
      and "load_response_json d (response_text resp) = Inr rj"
      and "py_iter rj = Inr parts"
      and "find_body d 0 parts = Inr None"
  shows "handle_response d resp chat c =
           (Inl (case bindE (py_path rj [0, 5, 2, 0, 1, 0]) (ErrorCode d) of
                   Inl e \<Rightarrow> APIError
                 | Inr USAGE_LIMIT_EXCEEDED \<Rightarrow> UsageLimitExceeded
                 | Inr MODEL_HEADER_INVALID \<Rightarrow> ModelInvalid
                 | Inr IP_TEMPORARILY_BLOCKED \<Rightarrow> TemporarilyBlocked),
            chat, close c)
         \<and> ErrorCode d (JNum n)
             = (case d_error_code d n of None \<Rightarrow> Inl ValueError | Some code \<Rightarrow> Inr code)
         \<and> TemporarilyBlocked \<noteq> APIError
         \<and> \<not> running (close c)"
proof -
  have "locate_body d rj = Inl PlainException"
    using assms(3,4) by (rule find_body_none_locate)
  then have "handle_response d resp chat c = (Inl (classify_failure d (Some rj)), chat, close c)"
    using assms(1,2) by (rule handle_response_no_body[rotated 2])
  then show ?thesis
    by (simp add: classify_failure_cases ErrorCode_def close_def)
qed

theorem structural_failure_classification_witness:
  "status_code \<lparr>status_code = 200, response_text = demo_text ''blocked''\<rparr> = 200
   \<and> load_response_json (demo_deps (Inl AuthError) \<lparr>status_code = 200, response_text = []\<rparr> demo_loads)
        (demo_text ''blocked'') = Inr demo_blocked_json
   \<and> find_body (demo_deps (Inl AuthError) \<lparr>status_code = 200, response_text = []\<rparr> demo_loads) 0
        [JArr [JStr ''er'', JNull, JNull, JNull, JNull,
               JArr [JNull, JNull, JArr [JArr [JNull, JArr [JNum 1060]]]]]] = Inr None
   \<and> handle_response (demo_deps (Inl AuthError) \<lparr>status_code = 200, response_text = []\<rparr> demo_loads)
        \<lparr>status_code = 200, response_text = demo_text ''blocked''\<rparr>
        (None :: unit chat_session option) (demo_client True)
      = (Inl TemporarilyBlocked, None, demo_client False)"
proof -
  let ?d = "demo_deps (Inl AuthError) \<lparr>status_code = 200, response_text = []\<rparr> demo_loads"
  let ?resp = "\<lparr>status_code = 200, response_text = demo_text ''blocked''\<rparr>"
  let ?parts = "[JArr [JStr ''er'', JNull, JNull, JNull, JNull,
               JArr [JNull, JNull, JArr [JArr [JNull, JArr [JNum 1060]]]]]]"
  have 1: "status_code ?resp = 200" by simp
  have 2: "load_response_json ?d (response_text ?resp) = Inr demo_blocked_json"
    by (simp add: load_response_json_def demo_text_def py_index_def bindE_def json_loads_def
          demo_deps_def demo_loads_def)
  have 3: "py_iter demo_blocked_json = Inr ?parts" by (simp add: demo_blocked_json_def)
  have 4: "find_body ?d 0 ?parts = Inr None"
    by (simp add: load_part_def bindE_def py_index_def json_loads_def caught_ITV_def)
  from structural_failure_classification[OF 1 2 3 4, of None "demo_client True" 0] 2 4
  show ?thesis
    by (simp add: demo_blocked_json_def py_index_def bindE_def ErrorCode_def demo_deps_def
          demo_error_code_def close_def demo_client_def)
qed

section \<open>Properties of the status check\<close>

lemma handle_response_non_200:
  "status_code resp \<noteq> 200 \<Longrightarrow> handle_response d resp chat c = (Inl APIError, chat, close c)"
  by (simp add: handle_response_def)

lemma generate_content_non_200_closes:
  assumes "prompt \<noteq> []" and "resolve_model d model = Inr m"
      and "c1 = (if auto_close c then reset_close_task c else c)"
      and "upload_all d (case files of None \<Rightarrow> [] | Some fs \<Rightarrow> fs) (world c1) = (Inr atts, w1)"
      and "d_post d (generate_request d c1 m (turn_envelope prompt atts chat gem)) w1 = (Inr resp, w2)"
      and "status_code resp \<noteq> 200"
  shows "generate_content d prompt files model gem chat c
           = (Inl APIError, chat, close (c1\<lparr>world := w2\<rparr>))"
  using assms by (simp add: generate_content_def handle_response_non_200 Let_def)

lemma fetch_gems_non_200_stays_open:
  assumes "d_post d (gems_request d c) (world c) = (Inr resp, w)"
      and "status_code resp \<noteq> 200"
  shows "fetch_gems d u c = (Inl APIError, u, c\<lparr>world := w\<rparr>)"
  using assms by (simp add: fetch_gems_def Let_def)

text \<open>
  C7 holds for \<open>generate_content\<close> and not for \<open>fetch_gems\<close>, which raises \<open>APIError\<close> on a
  status other than 200 without closing the client.  On a running client and a response
  of status 500: \<open>fetch_gems\<close> leaves the client running, \<open>generate_content\<close> closes it; the
  decorated \<open>fetch_gems\<close> retries on the open client, the decorated \<open>generate_content\<close>
  initializes again before each retry.
\<close>

theorem fetch_gems_status_500_stays_running:
  "fetch_gems (demo_deps (Inl AuthError) \<lparr>status_code = 500, response_text = []\<rparr> demo_loads)
     () (demo_client True)
     = (Inl APIError, (), (demo_client True)\<lparr>world := 1\<rparr>)
   \<and> running ((demo_client True)\<lparr>world := 1\<rparr>)
   \<and> generate_content
        (demo_deps (Inl AuthError) \<lparr>status_code = 500, response_text = []\<rparr> demo_loads)
        ''hi'' None (ModelEnum ()) None (None :: unit chat_session option) (demo_client True)
     = (Inl APIError, None, (demo_client False)\<lparr>world := 1\<rparr>)
   \<and> trace_of (fetch_gems_running
        (demo_deps (Inr (''token'', [(''__Secure-1PSID'', ''sid'')]))
           \<lparr>status_code = 500, response_text = []\<rparr> demo_loads) 2 (demo_client True))
     = [EvCall, EvSleep, EvCall, EvSleep, EvCall]
   \<and> trace_of (generate_content_running
        (demo_deps (Inr (''token'', [(''__Secure-1PSID'', ''sid'')]))
           \<lparr>status_code = 500, response_text = []\<rparr> demo_loads) 2
        ''hi'' None (ModelEnum ()) None (None :: unit chat_session option) (demo_client True))
     = [EvCall, EvSleep, EvInit, EvCall, EvSleep, EvInit, EvCall]"
  by (simp add: fetch_gems_def generate_content_def handle_response_def demo_deps_def
        demo_client_def close_def resolve_model_def fetch_gems_running_def
        generate_content_running_def wrapper.simps attempt_def init_def retry_budget_def
        isinstance_APIError_def trace_of_def Let_def)

section \<open>Properties of the generated-image scan\<close>

text \<open>The part index matters to the scan only through the comparison with
  \<open>body_index\<close>.\<close>

lemma scan_from_zero:
  "scan_img_body d 0 ci i parts = scan_img_body d 0 ci j parts"
  by (induction parts arbitrary: i j) (auto split: sum.splits)

lemma scan_index_irrelevant:
  "bi \<le> i \<Longrightarrow> scan_img_body d bi ci i parts = scan_img_body d 0 ci 0 parts"
proof (induction parts arbitrary: i)
  case Nil
  then show ?case by simp
next
  case (Cons part rest)
  have a: "scan_img_body d bi ci (Suc i) rest = scan_img_body d 0 ci 0 rest"
    using Cons.IH[of "Suc i"] Cons.prems by simp
  have b: "scan_img_body d 0 ci (Suc 0) rest = scan_img_body d 0 ci 0 rest"
    by (rule scan_from_zero)
  show ?case using Cons.prems a b
    by (simp split: sum.splits)
qed

lemma scan_from_body_index:
  "scan_img_body d bi ci i parts = scan_img_body d 0 ci 0 (drop (bi - i) parts)"
proof (induction parts arbitrary: i)
  case Nil
  then show ?case by simp
next
  case (Cons part rest)
  show ?case
  proof (cases "i < bi")
    case True
    then have "bi - i = Suc (bi - Suc i)" by arith
    then have "drop (bi - i) (part # rest) = drop (bi - Suc i) rest"
      by simp
    then show ?thesis using True Cons.IH[of "Suc i"] by simp
  next
    case False
    then have "bi \<le> i" by simp
    then show ?thesis using scan_index_irrelevant[of bi i d ci "part # rest"] by simp
  qed
qed

lemma scan_zero_Some:
  "scan_img_body d 0 ci 0 parts = Inr (Some img) \<Longrightarrow>
     \<exists>part \<in> set parts. load_part d part = Inr img
        \<and> (\<exists>m. py_path img [4, int ci, 12, 7, 0] = Inr m \<and> py_truthy m)"
proof (induction parts)
  case Nil
  then show ?case by simp
next
  case (Cons part rest)
  have b: "scan_img_body d 0 ci (Suc 0) rest = scan_img_body d 0 ci 0 rest"
    by (rule scan_from_zero)
  show ?case
  proof (cases "\<exists>m. load_part d part = Inr img \<and> py_path img [4, int ci, 12, 7, 0] = Inr m \<and> py_truthy m")
    case True
    then show ?thesis by auto
  next
    case False
    then have "scan_img_body d 0 ci 0 rest = Inr (Some img)"
      using Cons.prems b
      by (auto split: sum.splits if_splits)
    then show ?thesis using Cons.IH by auto
  qed
qed

lemma parse_candidate_image_error:
  assumes "candidate_text cand = Inr t" and "candidate_thoughts cand = Inr th"
      and "candidate_web_images cand = Inr w" and "generated_marker cand = Inr True"
      and "scan_img_body d bi ci 0 parts = Inr None"
  shows "parse_candidate d parts bi ci cand = Inl ImageGenerationError"
  using assms by (simp add: parse_candidate_def bindE_def generated_part_def)

lemma parse_output_image_error:
  assumes "py_getitem body 4 = Inr b4" and "py_iter b4 = Inr (cand # rest)"
      and "parse_candidate d parts bi 0 cand = Inl ImageGenerationError"
  shows "parse_output d parts bi body = Inl ImageGenerationError"
  using assms by (simp add: parse_output_def bindE_def caught_TI_def)
































section \<open>Where the generated images are read\<close>











end
